theory Spec2Isabelle
  imports Complex_Main
begin

section \<open>The node registry and broadcast dispatcher of app/node/__init__.py\<close>

text \<open>
  The theory embeds class \<open>NodeManager\<close> of \<^verbatim>\<open>src/app/node/__init__.py\<close>. The
  manager keeps a dictionary from node ids to handles of remote nodes; every method
  either changes that dictionary or calls methods of the handles. The handles, the
  constructor \<open>create_node\<close> and the two serializers come from other packages: they are
  parameters of the model (what a call answers) and every call is written to a trace, so
  that the order and the number of calls can be stated.

  The reader-writer lock is not modelled: one method runs at a time.
\<close>

subsection \<open>Values of the collaborating packages\<close>

text \<open>\<open>Health\<close> and \<open>NodeType\<close> are the enumerations of the node bridge.\<close>

datatype Health = NOT_CONNECTED | BROKEN | HEALTHY | INVALID

datatype NodeType = NodeType_rest | NodeType_grpc

text \<open>
  Modelled from the spec: \<open>NodeConnectionType\<close> is declared in app/db/models, which is
  not among the sources. The spec (section 3) gives the connection kind as the
  enumeration REST, RPC; the source names the members \<open>rest\<close> and \<open>grpc\<close>. Python checks
  no type at run time, so the attribute can hold any other value as well:
  \<open>other_kind\<close> stands for those.
\<close>

datatype NodeConnectionType = rest | grpc | other_kind string

text \<open>
  The exceptions of the model. \<open>KeyError\<close> is what a dictionary raises for a missing
  key; \<open>Raised msg\<close> stands for any instance of \<open>Exception\<close> raised by a call into a
  handle. Task cancellation is a signal of the scheduler, not an \<open>Exception\<close>, and is
  outside the model.
\<close>

datatype exn = KeyError | Raised string

text \<open>
  The configuration row of a node (\<open>app.db.models.Node\<close>), with the attributes
  \<open>update_node\<close> reads.
\<close>

record Node =
  node_id :: int
  connection_type :: NodeConnectionType
  address :: string
  port :: int
  server_ca :: string
  api_key :: string
  name :: string
  max_logs :: int
  usage_coefficient :: real

text \<open>
  A handle (\<open>PasarGuardNode\<close>) is an object: \<open>obj\<close> is its identity, the other fields
  are the keyword arguments \<open>create_node\<close> was called with (the logger, the same object
  in every call, is left out; \<open>extra\<close> is the pair of its two entries).
\<close>

record PasarGuardNode =
  obj :: nat
  connection :: NodeType
  node_address :: string
  node_port :: int
  node_server_ca :: string
  node_api_key :: string
  node_name :: string
  node_max_logs :: int
  extra_id :: int
  extra_usage_coefficient :: real

text \<open>The user a single update or removal is about (\<open>UserResponse\<close>).\<close>

record 'ps UserResponse =
  user_id :: int
  username :: string
  proxy_settings :: 'ps

subsection \<open>Dictionaries\<close>

text \<open>
  A Python dictionary keeps its keys in insertion order, and the methods below iterate
  over it, so \<open>_nodes\<close> is an association list. \<open>dict_get\<close> is \<open>d.get(k, None)\<close>,
  \<open>dict_getitem\<close> is \<open>d[k]\<close>, \<open>dict_delitem\<close> is \<open>del d[k]\<close> and \<open>dict_setitem\<close> is
  \<open>d[k] = v\<close>: an existing key keeps its place, a new key goes to the end.
\<close>

definition dict_get :: "('k \<times> 'v) list \<Rightarrow> 'k \<Rightarrow> 'v option" where
  "dict_get d k = map_of d k"

definition dict_getitem :: "('k \<times> 'v) list \<Rightarrow> 'k \<Rightarrow> exn + 'v" where
  "dict_getitem d k = (case map_of d k of None \<Rightarrow> Inl KeyError | Some v \<Rightarrow> Inr v)"

definition dict_delitem :: "('k \<times> 'v) list \<Rightarrow> 'k \<Rightarrow> exn + ('k \<times> 'v) list" where
  "dict_delitem d k =
     (if k \<in> set (map fst d) then Inr (filter (\<lambda>p. fst p \<noteq> k) d) else Inl KeyError)"

definition dict_setitem :: "('k \<times> 'v) list \<Rightarrow> 'k \<Rightarrow> 'v \<Rightarrow> ('k \<times> 'v) list" where
  "dict_setitem d k v =
     (if k \<in> set (map fst d) then map (\<lambda>p. if fst p = k then (k, v) else p) d
      else d @ [(k, v)])"

definition type_map :: "(NodeConnectionType \<times> NodeType) list" where
  "type_map = [(rest, NodeType_rest), (grpc, NodeType_grpc)]"

subsection \<open>State and trace\<close>

text \<open>
  An event is one call into a collaborator or one change of the dictionary. The type
  variables are the values this module only passes on: \<open>'u\<close> a database user, \<open>'d\<close> the
  dictionary of a user's proxy settings, \<open>'pu\<close> and \<open>'pus\<close> the wire format of one user
  and of a batch.
\<close>

datatype ('u, 'd, 'pu, 'pus) event =
    SetHealth PasarGuardNode Health
  | Stop PasarGuardNode
  | GetHealth PasarGuardNode
  | UpdateUsers PasarGuardNode 'pus
  | UpdateUser PasarGuardNode 'pu
  | CreateNode PasarGuardNode
  | DictDel int PasarGuardNode
  | DictSet int PasarGuardNode
  | SerializeUsers "'u list"
  | SerializeUser int string 'd "string list option"
  | LogInfo string

text \<open>
  \<open>nodes\<close> is the attribute \<open>_nodes\<close>; \<open>trace\<close> is the history of events, oldest first;
  \<open>next_obj\<close> is the identity the next object gets.
\<close>

record ('u, 'd, 'pu, 'pus) state =
  nodes :: "(int \<times> PasarGuardNode) list"
  trace :: "('u, 'd, 'pu, 'pus) event list"
  next_obj :: nat

definition emit ::
  "('u, 'd, 'pu, 'pus) event \<Rightarrow> ('u, 'd, 'pu, 'pus) state \<Rightarrow> ('u, 'd, 'pu, 'pus) state" where
  "emit e s = s\<lparr>trace := trace s @ [e]\<rparr>"


subsection \<open>The handles and the serializers\<close>

text \<open>
  What the remote side answers during one method of the manager: for each handle,
  whether a call raises (\<open>Some e\<close>) or returns (\<open>None\<close>), and what health it reports.
\<close>

record ('pu, 'pus) transport =
  set_health_raises :: "PasarGuardNode \<Rightarrow> Health \<Rightarrow> exn option"
  stop_raises :: "PasarGuardNode \<Rightarrow> exn option"
  get_health_returns :: "PasarGuardNode \<Rightarrow> exn + Health"
  update_users_raises :: "PasarGuardNode \<Rightarrow> 'pus \<Rightarrow> exn option"
  update_user_raises :: "PasarGuardNode \<Rightarrow> 'pu \<Rightarrow> exn option"

definition raise_or_return :: "exn option \<Rightarrow> exn + unit" where
  "raise_or_return r = (case r of None \<Rightarrow> Inr () | Some e \<Rightarrow> Inl e)"

definition set_health ::
  "('pu, 'pus) transport \<Rightarrow> PasarGuardNode \<Rightarrow> Health \<Rightarrow> ('u, 'd, 'pu, 'pus) state \<Rightarrow>
     (exn + unit) \<times> ('u, 'd, 'pu, 'pus) state" where
  "set_health T n h s = (raise_or_return (set_health_raises T n h), emit (SetHealth n h) s)"

definition stop ::
  "('pu, 'pus) transport \<Rightarrow> PasarGuardNode \<Rightarrow> ('u, 'd, 'pu, 'pus) state \<Rightarrow>
     (exn + unit) \<times> ('u, 'd, 'pu, 'pus) state" where
  "stop T n s = (raise_or_return (stop_raises T n), emit (Stop n) s)"

definition get_health ::
  "('pu, 'pus) transport \<Rightarrow> PasarGuardNode \<Rightarrow> ('u, 'd, 'pu, 'pus) state \<Rightarrow>
     (exn + Health) \<times> ('u, 'd, 'pu, 'pus) state" where
  "get_health T n s = (get_health_returns T n, emit (GetHealth n) s)"

definition node_update_users ::
  "('pu, 'pus) transport \<Rightarrow> PasarGuardNode \<Rightarrow> 'pus \<Rightarrow> ('u, 'd, 'pu, 'pus) state \<Rightarrow>
     (exn + unit) \<times> ('u, 'd, 'pu, 'pus) state" where
  "node_update_users T n pus s =
     (raise_or_return (update_users_raises T n pus), emit (UpdateUsers n pus) s)"

definition node_update_user ::
  "('pu, 'pus) transport \<Rightarrow> PasarGuardNode \<Rightarrow> 'pu \<Rightarrow> ('u, 'd, 'pu, 'pus) state \<Rightarrow>
     (exn + unit) \<times> ('u, 'd, 'pu, 'pus) state" where
  "node_update_user T n pu s =
     (raise_or_return (update_user_raises T n pu), emit (UpdateUser n pu) s)"

text \<open>
  \<open>create_node\<close> of the node bridge: a new object, different from every object made
  before, that keeps its arguments.
\<close>

definition create_node ::
  "NodeType \<Rightarrow> string \<Rightarrow> int \<Rightarrow> string \<Rightarrow> string \<Rightarrow> string \<Rightarrow> int \<Rightarrow> int \<Rightarrow> real \<Rightarrow>
     ('u, 'd, 'pu, 'pus) state \<Rightarrow> PasarGuardNode \<times> ('u, 'd, 'pu, 'pus) state" where
  "create_node c a p ca key nm ml eid euc s =
     (let n = \<lparr>obj = next_obj s, connection = c, node_address = a, node_port = p,
                node_server_ca = ca, node_api_key = key, node_name = nm, node_max_logs = ml,
                extra_id = eid, extra_usage_coefficient = euc\<rparr>
      in (n, (emit (CreateNode n) s)\<lparr>next_obj := Suc (next_obj s)\<rparr>))"

text \<open>
  The serializers of app/node/user.py (not among the sources) are functions of their
  arguments; \<open>settings_dict\<close> is the method \<open>dict()\<close> of a user's proxy settings.
\<close>

record ('u, 'ps, 'd, 'pu, 'pus) serializer =
  users_for_node :: "'u list \<Rightarrow> 'pus"
  user_for_node :: "int \<Rightarrow> string \<Rightarrow> 'd \<Rightarrow> string list option \<Rightarrow> 'pu"
  settings_dict :: "'ps \<Rightarrow> 'd"

text \<open>
  Modelled from the spec: the signature of \<open>serialize_user_for_node\<close> is in
  app/node/user.py, which is not among the sources. The spec (section 6) gives it as
  SerializeUserForNode(id, username, proxyConfig, inbounds?) with the inbounds optional,
  so a call with three arguments is the call with the inbounds absent.
\<close>

definition inbounds_default :: "string list option" where
  "inbounds_default = None"

definition serialize_users_for_node ::
  "('u, 'ps, 'd, 'pu, 'pus) serializer \<Rightarrow> 'u list \<Rightarrow> ('u, 'd, 'pu, 'pus) state \<Rightarrow>
     'pus \<times> ('u, 'd, 'pu, 'pus) state" where
  "serialize_users_for_node S users s = (users_for_node S users, emit (SerializeUsers users) s)"

definition serialize_user_for_node ::
  "('u, 'ps, 'd, 'pu, 'pus) serializer \<Rightarrow> int \<Rightarrow> string \<Rightarrow> 'd \<Rightarrow> string list option \<Rightarrow>
     ('u, 'd, 'pu, 'pus) state \<Rightarrow> 'pu \<times> ('u, 'd, 'pu, 'pus) state" where
  "serialize_user_for_node S i u d inbounds s =
     (user_for_node S i u d inbounds, emit (SerializeUser i u d inbounds) s)"

subsection \<open>The registry: update_node, remove_node, get_node, get_nodes\<close>

text \<open>
  The statement both \<open>update_node\<close> (lines 25 to 31) and \<open>remove_node\<close> (lines 53 to 59)
  run on a handle found under a key:
  \<^verbatim>\<open>
  try:
      await old_node.set_health(Health.INVALID)
      await old_node.stop()
  except Exception:
      pass
  finally:
      del self._nodes[key]
  \<close>
  \<open>retire_try\<close> is the body of the \<open>try\<close>; its exception is dropped by the handler, and
  the \<open>finally\<close> clause runs in every case. A \<open>KeyError\<close> of the \<open>del\<close> would leave the
  statement.
\<close>

definition retire_try ::
  "('pu, 'pus) transport \<Rightarrow> PasarGuardNode \<Rightarrow> ('u, 'd, 'pu, 'pus) state \<Rightarrow>
     (exn + unit) \<times> ('u, 'd, 'pu, 'pus) state" where
  "retire_try T old_node s =
     (case set_health T old_node INVALID s of
        (Inl e, s1) \<Rightarrow> (Inl e, s1)
      | (Inr _, s1) \<Rightarrow> stop T old_node s1)"

definition retire ::
  "('pu, 'pus) transport \<Rightarrow> int \<Rightarrow> PasarGuardNode \<Rightarrow> ('u, 'd, 'pu, 'pus) state \<Rightarrow>
     (exn + unit) \<times> ('u, 'd, 'pu, 'pus) state" where
  "retire T k old_node s =
     (let s1 = snd (retire_try T old_node s)
      in case dict_delitem (nodes s1) k of
           Inl e \<Rightarrow> (Inl e, s1)
         | Inr d \<Rightarrow> (Inr (), (emit (DictDel k old_node) s1)\<lparr>nodes := d\<rparr>))"

definition update_node ::
  "('pu, 'pus) transport \<Rightarrow> Node \<Rightarrow> ('u, 'd, 'pu, 'pus) state \<Rightarrow>
     (exn + PasarGuardNode) \<times> ('u, 'd, 'pu, 'pus) state" where
  "update_node T node s =
     (case (case dict_get (nodes s) (node_id node) of
              None \<Rightarrow> (Inr (), s)
            | Some old_node \<Rightarrow> retire T (node_id node) old_node s) of
        (Inl e, s1) \<Rightarrow> (Inl e, s1)
      | (Inr _, s1) \<Rightarrow>
          (case dict_getitem type_map (connection_type node) of
             Inl e \<Rightarrow> (Inl e, s1)
           | Inr c \<Rightarrow>
               (let (new_node, s2) =
                      create_node c (address node) (port node) (server_ca node) (api_key node)
                        (name node) (max_logs node) (node_id node) (usage_coefficient node) s1
                in (Inr new_node,
                    (emit (DictSet (node_id node) new_node) s2)
                      \<lparr>nodes := dict_setitem (nodes s2) (node_id node) new_node\<rparr>))))"

definition remove_node ::
  "('pu, 'pus) transport \<Rightarrow> int \<Rightarrow> ('u, 'd, 'pu, 'pus) state \<Rightarrow>
     (exn + unit) \<times> ('u, 'd, 'pu, 'pus) state" where
  "remove_node T k s =
     (case dict_get (nodes s) k of
        None \<Rightarrow> (Inr (), s)
      | Some old_node \<Rightarrow> retire T k old_node s)"

definition get_node :: "int \<Rightarrow> ('u, 'd, 'pu, 'pus) state \<Rightarrow> PasarGuardNode option" where
  "get_node k s = dict_get (nodes s) k"

definition get_nodes :: "('u, 'd, 'pu, 'pus) state \<Rightarrow> (int \<times> PasarGuardNode) list" where
  "get_nodes s = nodes s"

subsection \<open>The health scans\<close>

text \<open>
  The three scans are the same list comprehension with a different constant:
  \<^verbatim>\<open>[(id, node) for id, node in self._nodes.items() if (await node.get_health() == H)]\<close>
  The items are visited in order; an exception of \<open>get_health\<close> leaves the comprehension
  and the method, since nothing catches it.
\<close>

fun health_scan ::
  "('pu, 'pus) transport \<Rightarrow> Health \<Rightarrow> (int \<times> PasarGuardNode) list \<Rightarrow>
     ('u, 'd, 'pu, 'pus) state \<Rightarrow>
     (exn + (int \<times> PasarGuardNode) list) \<times> ('u, 'd, 'pu, 'pus) state" where
  "health_scan T h [] s = (Inr [], s)"
| "health_scan T h ((k, n) # items) s =
     (case get_health T n s of
        (Inl e, s1) \<Rightarrow> (Inl e, s1)
      | (Inr v, s1) \<Rightarrow>
          (case health_scan T h items s1 of
             (Inl e, s2) \<Rightarrow> (Inl e, s2)
           | (Inr found, s2) \<Rightarrow> (Inr (if v = h then (k, n) # found else found), s2)))"

definition get_healthy_nodes ::
  "('pu, 'pus) transport \<Rightarrow> ('u, 'd, 'pu, 'pus) state \<Rightarrow>
     (exn + (int \<times> PasarGuardNode) list) \<times> ('u, 'd, 'pu, 'pus) state" where
  "get_healthy_nodes T s = health_scan T HEALTHY (nodes s) s"

definition get_broken_nodes ::
  "('pu, 'pus) transport \<Rightarrow> ('u, 'd, 'pu, 'pus) state \<Rightarrow>
     (exn + (int \<times> PasarGuardNode) list) \<times> ('u, 'd, 'pu, 'pus) state" where
  "get_broken_nodes T s = health_scan T BROKEN (nodes s) s"

definition get_not_connected_nodes ::
  "('pu, 'pus) transport \<Rightarrow> ('u, 'd, 'pu, 'pus) state \<Rightarrow>
     (exn + (int \<times> PasarGuardNode) list) \<times> ('u, 'd, 'pu, 'pus) state" where
  "get_not_connected_nodes T s = health_scan T NOT_CONNECTED (nodes s) s"

subsection \<open>The broadcasts\<close>

text \<open>
  The loop of \<open>update_users\<close>: \<^verbatim>\<open>for node in self._nodes.values(): await
  node.update_users(proto_users)\<close>. Nothing catches an exception of the call.
\<close>

fun update_users_loop ::
  "('pu, 'pus) transport \<Rightarrow> 'pus \<Rightarrow> PasarGuardNode list \<Rightarrow> ('u, 'd, 'pu, 'pus) state \<Rightarrow>
     (exn + unit) \<times> ('u, 'd, 'pu, 'pus) state" where
  "update_users_loop T pus [] s = (Inr (), s)"
| "update_users_loop T pus (n # ns) s =
     (case node_update_users T n pus s of
        (Inl e, s1) \<Rightarrow> (Inl e, s1)
      | (Inr _, s1) \<Rightarrow> update_users_loop T pus ns s1)"

definition update_users ::
  "('pu, 'pus) transport \<Rightarrow> ('u, 'ps, 'd, 'pu, 'pus) serializer \<Rightarrow> 'u list \<Rightarrow>
     ('u, 'd, 'pu, 'pus) state \<Rightarrow> (exn + unit) \<times> ('u, 'd, 'pu, 'pus) state" where
  "update_users T S users s =
     (let (proto_users, s1) = serialize_users_for_node S users s
      in update_users_loop T proto_users (map snd (nodes s1)) s1)"

text \<open>
  The loop of \<open>_update_user\<close>: for every handle, a line in the log and then the call.
\<close>

definition sending_update_request :: "PasarGuardNode \<Rightarrow> string" where
  "sending_update_request n = ''['' @ node_name n @ ''] sending update request''"

fun update_user_loop ::
  "('pu, 'pus) transport \<Rightarrow> 'pu \<Rightarrow> PasarGuardNode list \<Rightarrow> ('u, 'd, 'pu, 'pus) state \<Rightarrow>
     (exn + unit) \<times> ('u, 'd, 'pu, 'pus) state" where
  "update_user_loop T pu [] s = (Inr (), s)"
| "update_user_loop T pu (n # ns) s =
     (case node_update_user T n pu (emit (LogInfo (sending_update_request n)) s) of
        (Inl e, s1) \<Rightarrow> (Inl e, s1)
      | (Inr _, s1) \<Rightarrow> update_user_loop T pu ns s1)"

text \<open>\<open>private_update_user\<close> is the method \<open>_update_user\<close>.\<close>

definition private_update_user ::
  "('pu, 'pus) transport \<Rightarrow> 'pu \<Rightarrow> ('u, 'd, 'pu, 'pus) state \<Rightarrow>
     (exn + unit) \<times> ('u, 'd, 'pu, 'pus) state" where
  "private_update_user T pu s = update_user_loop T pu (map snd (nodes s)) s"

definition update_user ::
  "('pu, 'pus) transport \<Rightarrow> ('u, 'ps, 'd, 'pu, 'pus) serializer \<Rightarrow> 'ps UserResponse \<Rightarrow>
     string list option \<Rightarrow> ('u, 'd, 'pu, 'pus) state \<Rightarrow>
     (exn + unit) \<times> ('u, 'd, 'pu, 'pus) state" where
  "update_user T S user inbounds s =
     (let (proto_user, s1) =
            serialize_user_for_node S (user_id user) (username user)
              (settings_dict S (proxy_settings user)) inbounds s
      in private_update_user T proto_user s1)"

definition remove_user ::
  "('pu, 'pus) transport \<Rightarrow> ('u, 'ps, 'd, 'pu, 'pus) serializer \<Rightarrow> 'ps UserResponse \<Rightarrow>
     ('u, 'd, 'pu, 'pus) state \<Rightarrow> (exn + unit) \<times> ('u, 'd, 'pu, 'pus) state" where
  "remove_user T S user s =
     (let (proto_user, s1) =
            serialize_user_for_node S (user_id user) (username user)
              (settings_dict S (proxy_settings user)) inbounds_default s
      in private_update_user T proto_user s1)"

subsection \<open>Histories of calls\<close>

text \<open>\<open>emits es s\<close> is \<open>s\<close> after the events \<open>es\<close>, in this order.\<close>

definition emits ::
  "('u, 'd, 'pu, 'pus) event list \<Rightarrow> ('u, 'd, 'pu, 'pus) state \<Rightarrow> ('u, 'd, 'pu, 'pus) state" where
  "emits es s = s\<lparr>trace := trace s @ es\<rparr>"

text \<open>The events a broadcast adds for one handle.\<close>

definition users_call :: "'pus \<Rightarrow> PasarGuardNode \<Rightarrow> ('u, 'd, 'pu, 'pus) event list" where
  "users_call pus n = [UpdateUsers n pus]"

definition user_call :: "'pu \<Rightarrow> PasarGuardNode \<Rightarrow> ('u, 'd, 'pu, 'pus) event list" where
  "user_call pu n = [LogInfo (sending_update_request n), UpdateUser n pu]"

text \<open>\<open>since s s'\<close> is what the trace of \<open>s'\<close> has after the events of \<open>s\<close>.\<close>

definition since ::
  "('u, 'd, 'pu, 'pus) state \<Rightarrow> ('u, 'd, 'pu, 'pus) state \<Rightarrow> ('u, 'd, 'pu, 'pus) event list" where
  "since s s' = drop (length (trace s)) (trace s')"

text \<open>How often a history calls the serializer of a batch.\<close>

definition batch_serializer_calls :: "('u, 'd, 'pu, 'pus) event list \<Rightarrow> nat" where
  "batch_serializer_calls es =
     length (filter (\<lambda>e. case e of SerializeUsers us \<Rightarrow> True | _ \<Rightarrow> False) es)"





text \<open>
  The handle \<open>update_node\<close> has \<open>create_node\<close> make for a configuration: the object
  \<open>b\<close> with connection \<open>c\<close> and the attributes of the configuration as arguments.
\<close>

definition made :: "nat \<Rightarrow> NodeType \<Rightarrow> Node \<Rightarrow> PasarGuardNode" where
  "made b c node =
     \<lparr>obj = b, connection = c, node_address = address node, node_port = port node,
      node_server_ca = server_ca node, node_api_key = api_key node, node_name = name node,
      node_max_logs = max_logs node, extra_id = node_id node,
      extra_usage_coefficient = usage_coefficient node\<rparr>"

text \<open>
  The events of retiring a handle: a \<open>stop\<close> follows only a \<open>set_health\<close> that
  returned.
\<close>

definition retirement ::
  "('pu, 'pus) transport \<Rightarrow> int \<Rightarrow> PasarGuardNode \<Rightarrow> ('u, 'd, 'pu, 'pus) event list" where
  "retirement T k old_node =
     SetHealth old_node INVALID #
     (if set_health_raises T old_node INVALID = None then [Stop old_node] else []) @
     [DictDel k old_node]"

definition without :: "int \<Rightarrow> (int \<times> PasarGuardNode) list \<Rightarrow> (int \<times> PasarGuardNode) list" where
  "without k d = filter (\<lambda>p. fst p \<noteq> k) d"

text \<open>
  The events \<open>update_node\<close> and \<open>remove_node\<close> add before anything else: none when the
  key has no handle, the retirement of the handle otherwise.
\<close>

definition retired ::
  "('pu, 'pus) transport \<Rightarrow> int \<Rightarrow> ('u, 'd, 'pu, 'pus) state \<Rightarrow> ('u, 'd, 'pu, 'pus) event list" where
  "retired T k s =
     (case dict_get (nodes s) k of None \<Rightarrow> [] | Some old_node \<Rightarrow> retirement T k old_node)"


subsection \<open>Concrete inputs\<close>

text \<open>
  Three node configurations, a configuration with a connection kind that \<open>type_map\<close>
  does not have, and the registry after the three have been registered.
\<close>

definition cfg :: "int \<Rightarrow> NodeConnectionType \<Rightarrow> Node" where
  "cfg i c = \<lparr>node_id = i, connection_type = c, address = ''10.0.0.1'', port = 62050,
              server_ca = ''ca'', api_key = ''key'', name = ''n'', max_logs = 100,
              usage_coefficient = 1\<rparr>"

definition handle :: "nat \<Rightarrow> int \<Rightarrow> NodeType \<Rightarrow> PasarGuardNode" where
  "handle b i c = \<lparr>obj = b, connection = c, node_address = ''10.0.0.1'', node_port = 62050,
                   node_server_ca = ''ca'', node_api_key = ''key'', node_name = ''n'',
                   node_max_logs = 100, extra_id = i, extra_usage_coefficient = 1\<rparr>"

text \<open>
  A remote side where no call raises; the object 0 reports HEALTHY, the object 1
  BROKEN and every other object NOT_CONNECTED.
\<close>

definition well_behaved :: "(nat, nat list) transport" where
  "well_behaved =
     \<lparr>set_health_raises = (\<lambda>n h. None),
      stop_raises = (\<lambda>n. None),
      get_health_returns =
        (\<lambda>n. Inr (if obj n = 0 then HEALTHY else if obj n = 1 then BROKEN else NOT_CONNECTED)),
      update_users_raises = (\<lambda>n pus. None),
      update_user_raises = (\<lambda>n pu. None)\<rparr>"

definition timeout :: "exn" where
  "timeout = Raised ''timeout''"


definition stop_fails_on :: "nat \<Rightarrow> (nat, nat list) transport" where
  "stop_fails_on b =
     well_behaved\<lparr>stop_raises := (\<lambda>n. if obj n = b then Some timeout else None)\<rparr>"

definition get_health_fails_on :: "nat \<Rightarrow> (nat, nat list) transport" where
  "get_health_fails_on b =
     well_behaved\<lparr>get_health_returns :=
       (\<lambda>n. if obj n = b then Inl timeout else get_health_returns well_behaved n)\<rparr>"

definition update_fails_on :: "nat \<Rightarrow> (nat, nat list) transport" where
  "update_fails_on b =
     well_behaved\<lparr>update_users_raises := (\<lambda>n pus. if obj n = b then Some timeout else None),
                  update_user_raises := (\<lambda>n pu. if obj n = b then Some timeout else None)\<rparr>"

definition three_nodes :: "(nat, nat, nat, nat list) state" where
  "three_nodes =
     \<lparr>nodes = [(1, handle 0 1 NodeType_rest), (2, handle 1 2 NodeType_grpc),
               (3, handle 2 3 NodeType_rest)],
      trace = [],
      next_obj = 3\<rparr>"

definition a_serializer :: "(nat, nat, nat, nat, nat list) serializer" where
  "a_serializer =
     \<lparr>users_for_node = rev,
      user_for_node = (\<lambda>i u d inbounds. case inbounds of None \<Rightarrow> d | Some l \<Rightarrow> d + length l),
      settings_dict = (\<lambda>ps. ps)\<rparr>"

definition a_user :: "nat UserResponse" where
  "a_user = \<lparr>user_id = 7, username = ''alice'', proxy_settings = 5\<rparr>"

section \<open>Facts about the model\<close>

subsection \<open>Traces and dictionaries\<close>

lemma emit_simps [simp]:
  "nodes (emit e s) = nodes s" "trace (emit e s) = trace s @ [e]" "next_obj (emit e s) = next_obj s"
  by (simp_all add: emit_def)

lemma emits_simps [simp]:
  "nodes (emits es s) = nodes s" "trace (emits es s) = trace s @ es" "next_obj (emits es s) = next_obj s"
  by (simp_all add: emits_def)

lemma emit_emits: "emit e s = emits [e] s"
  by (simp add: emit_def emits_def)

lemma emits_emits [simp]: "emits es (emits es' s) = emits (es' @ es) s"
  by (simp add: emits_def)

lemma emits_Nil [simp]: "emits [] s = s"
  by (simp add: emits_def)

lemma emits_nodes_update [simp]: "emits es (s\<lparr>nodes := d\<rparr>) = (emits es s)\<lparr>nodes := d\<rparr>"
  by (simp add: emits_def)

lemma emits_next_update [simp]: "emits es (s\<lparr>next_obj := d\<rparr>) = (emits es s)\<lparr>next_obj := d\<rparr>"
  by (simp add: emits_def)

lemma dict_get_key: "dict_get d k = Some v \<Longrightarrow> k \<in> set (map fst d)"
  by (auto simp: dict_get_def dest: map_of_SomeD intro: rev_image_eqI)

lemma dict_get_without [simp]: "dict_get (without k d) k = None"
  by (auto simp: dict_get_def without_def map_of_eq_None_iff)

lemma keys_without [simp]: "k \<notin> fst ` set (without k d)"
  by (auto simp: without_def)


lemma retire_try_snd:
  "snd (retire_try T old_node s) =
     emits (SetHealth old_node INVALID #
            (if set_health_raises T old_node INVALID = None then [Stop old_node] else [])) s"
  by (simp add: retire_try_def set_health_def stop_def raise_or_return_def emit_emits
        split: option.splits)

lemma retire_present:
  assumes "dict_get (nodes s) k = Some old_node"
  shows "retire T k old_node s =
           (Inr (), (emits (retirement T k old_node) s)\<lparr>nodes := without k (nodes s)\<rparr>)"
  using dict_get_key [OF assms]
  by (simp add: retire_def retire_try_snd dict_delitem_def retirement_def without_def emit_emits)

lemma remove_node_present:
  assumes "dict_get (nodes s) k = Some old_node"
  shows "remove_node T k s =
           (Inr (), (emits (retirement T k old_node) s)\<lparr>nodes := without k (nodes s)\<rparr>)"
  by (simp add: remove_node_def assms retire_present)

lemma remove_node_absent:
  assumes "dict_get (nodes s) k = None"
  shows "remove_node T k s = (Inr (), s)"
  by (simp add: remove_node_def assms)

lemma create_node_made:
  "create_node c (address node) (port node) (server_ca node) (api_key node) (name node)
     (max_logs node) (node_id node) (usage_coefficient node) s =
   (made (next_obj s) c node,
    (emits [CreateNode (made (next_obj s) c node)] s)\<lparr>next_obj := Suc (next_obj s)\<rparr>)"
  by (simp add: create_node_def made_def Let_def emit_emits)

lemma dict_setitem_fresh: "k \<notin> set (map fst d) \<Longrightarrow> dict_setitem d k v = d @ [(k, v)]"
  by (simp add: dict_setitem_def)

lemma dict_setitem_without: "dict_setitem (without k d) k v = without k d @ [(k, v)]"
  by (rule dict_setitem_fresh) simp

lemma without_absent: "dict_get d k = None \<Longrightarrow> without k d = d"
  by (induction d) (auto simp: dict_get_def without_def split: if_splits)

lemma dict_get_None_key: "dict_get d k = None \<Longrightarrow> k \<notin> set (map fst d)"
  by (simp add: dict_get_def map_of_eq_None_iff)

lemma update_node_known:
  assumes "dict_getitem type_map (connection_type node) = Inr c"
  shows "update_node T node s =
           (Inr (made (next_obj s) c node),
            (emits (retired T (node_id node) s @
                    [CreateNode (made (next_obj s) c node),
                     DictSet (node_id node) (made (next_obj s) c node)]) s)
              \<lparr>nodes := without (node_id node) (nodes s) @ [(node_id node, made (next_obj s) c node)],
               next_obj := Suc (next_obj s)\<rparr>)"
proof (cases "dict_get (nodes s) (node_id node)")
  case None
  then show ?thesis
    using dict_get_None_key [OF None]
    by (simp add: update_node_def assms create_node_made dict_setitem_fresh without_absent
          retired_def emit_emits)
next
  case (Some old_node)
  then show ?thesis
    by (simp add: update_node_def assms create_node_made dict_setitem_without retire_present
          retired_def emit_emits)
qed

lemma update_node_unknown:
  assumes "dict_getitem type_map (connection_type node) = Inl e"
  shows "update_node T node s =
           (Inl e, (emits (retired T (node_id node) s) s)\<lparr>nodes := without (node_id node) (nodes s)\<rparr>)"
proof (cases "dict_get (nodes s) (node_id node)")
  case None
  then show ?thesis
    by (simp add: update_node_def assms without_absent retired_def)
next
  case (Some old_node)
  then show ?thesis
    by (simp add: update_node_def assms retire_present retired_def)
qed

lemma type_map_cases:
  "dict_getitem type_map c = (case c of rest \<Rightarrow> Inr NodeType_rest | grpc \<Rightarrow> Inr NodeType_grpc | other_kind v \<Rightarrow> Inl KeyError)"
  by (cases c) (simp_all add: dict_getitem_def type_map_def)


lemma type_map_unknown:
  assumes "c \<notin> set (map fst type_map)"
  shows "dict_getitem type_map c = Inl KeyError"
proof -
  have "c \<noteq> rest \<and> c \<noteq> grpc"
    using assms by (auto simp: type_map_def)
  then show ?thesis
    by (cases c) (simp_all add: type_map_cases)
qed

lemma dict_get_append_new [simp]: "dict_get (without k d @ [(k, v)]) k = Some v"
  by (simp add: dict_get_def map_of_append without_def map_add_def map_of_eq_None_iff [THEN iffD2]
        split: option.splits) (auto simp: map_of_eq_None_iff dest!: map_of_SomeD)









lemma filter_without [simp]: "filter (\<lambda>p. fst p = k) (without k d) = []"
  by (induction d) (auto simp: without_def)

subsection \<open>The scans and the loops of the broadcasts\<close>

lemma since_emits [simp]: "since s (emits es s) = es"
  by (simp add: since_def)

lemma health_scan_returns:
  assumes "\<forall>p\<in>set items. \<exists>v. get_health_returns T (snd p) = Inr v"
  shows "health_scan T h items s =
           (Inr (filter (\<lambda>p. get_health_returns T (snd p) = Inr h) items),
            emits (map (\<lambda>p. GetHealth (snd p)) items) s)"
  using assms
proof (induction items arbitrary: s)
  case Nil
  then show ?case by simp
next
  case (Cons p items)
  obtain k n where p: "p = (k, n)" by (cases p)
  from Cons.prems obtain v where v: "get_health_returns T n = Inr v"
    by (auto simp: p)
  have rest: "\<forall>p\<in>set items. \<exists>v. get_health_returns T (snd p) = Inr v"
    using Cons.prems by simp
  show ?case
    by (simp add: p get_health_def v Cons.IH [OF rest] emit_emits)
qed

lemma health_scan_raises:
  assumes "\<forall>p\<in>set before. \<exists>v. get_health_returns T (snd p) = Inr v"
      and "get_health_returns T n = Inl e"
  shows "health_scan T h (before @ (k, n) # after) s =
           (Inl e, emits (map (\<lambda>p. GetHealth (snd p)) before @ [GetHealth n]) s)"
  using assms(1)
proof (induction before arbitrary: s)
  case Nil
  then show ?case by (simp add: get_health_def assms(2) emit_emits)
next
  case (Cons p before)
  obtain j m where p: "p = (j, m)" by (cases p)
  from Cons.prems obtain v where v: "get_health_returns T m = Inr v"
    by (auto simp: p)
  have rest: "\<forall>p\<in>set before. \<exists>v. get_health_returns T (snd p) = Inr v"
    using Cons.prems by simp
  show ?case
    by (simp add: p get_health_def v Cons.IH [OF rest] emit_emits)
qed

lemma update_users_loop_returns:
  assumes "\<forall>n\<in>set ns. update_users_raises T n pus = None"
  shows "update_users_loop T pus ns s = (Inr (), emits (concat (map (users_call pus) ns)) s)"
  using assms
  by (induction ns arbitrary: s)
     (simp_all add: node_update_users_def raise_or_return_def users_call_def emit_emits)

lemma update_users_loop_raises:
  assumes "\<forall>m\<in>set before. update_users_raises T m pus = None"
      and "update_users_raises T n pus = Some e"
  shows "update_users_loop T pus (before @ n # after) s =
           (Inl e, emits (concat (map (users_call pus) (before @ [n]))) s)"
  using assms
  by (induction before arbitrary: s)
     (simp_all add: node_update_users_def raise_or_return_def users_call_def emit_emits)


lemma update_user_loop_raises:
  assumes "\<forall>m\<in>set before. update_user_raises T m pu = None"
      and "update_user_raises T n pu = Some e"
  shows "update_user_loop T pu (before @ n # after) s =
           (Inl e, emits (concat (map (user_call pu) (before @ [n]))) s)"
  using assms
  by (induction before arbitrary: s)
     (simp_all add: node_update_user_def raise_or_return_def user_call_def emit_emits)

lemma update_users_loop_events:
  fixes s :: "('u, 'd, 'pu, 'pus) state"
  shows "\<exists>es. snd (update_users_loop T pus ns s) = emits es s \<and> batch_serializer_calls es = 0"
proof (induction ns arbitrary: s)
  case Nil
  have "snd (update_users_loop T pus [] s) = emits [] s \<and> batch_serializer_calls ([] :: ('u, 'd, 'pu, 'pus) event list) = 0"
    by (simp add: batch_serializer_calls_def)
  then show ?case by blast
next
  case (Cons n ns)
  let ?s1 = "emits [UpdateUsers n pus] s"
  show ?case
  proof (cases "update_users_raises T n pus")
    case None
    from Cons.IH [of ?s1] obtain es
      where es: "snd (update_users_loop T pus ns ?s1) = emits es ?s1" "batch_serializer_calls es = 0"
      by blast
    have "snd (update_users_loop T pus (n # ns) s) = emits (UpdateUsers n pus # es) s \<and>
          batch_serializer_calls (UpdateUsers n pus # es) = 0"
      using es by (simp add: node_update_users_def raise_or_return_def None emit_emits
            batch_serializer_calls_def)
    then show ?thesis by blast
  next
    case (Some e)
    have "snd (update_users_loop T pus (n # ns) s) = emits [UpdateUsers n pus] s \<and>
          batch_serializer_calls ([UpdateUsers n pus] :: ('u, 'd, 'pu, 'pus) event list) = 0"
      by (simp add: node_update_users_def raise_or_return_def Some emit_emits
            batch_serializer_calls_def)
    then show ?thesis by blast
  qed
qed


lemma concat_users_call:
  "concat (map (users_call pus \<circ> f) xs) = map ((\<lambda>n. UpdateUsers n pus) \<circ> f) xs"
  by (induction xs) (simp_all add: users_call_def)

subsection \<open>The concrete inputs\<close>

lemma three_nodes_simps:
  "nodes three_nodes = [(1, handle 0 1 NodeType_rest), (2, handle 1 2 NodeType_grpc), (3, handle 2 3 NodeType_rest)]"
  "trace three_nodes = []" "next_obj three_nodes = 3"
  by (simp_all add: three_nodes_def)

lemma handle_simps [simp]: "obj (handle b i c) = b" "(handle b i c = handle b' i' c') = (b = b' \<and> i = i' \<and> c = c')"
  by (auto simp: handle_def)

lemma made_cfg: "made b c (cfg i t) = handle b i c"
  by (simp add: made_def cfg_def handle_def)

lemma cfg_simps [simp]: "node_id (cfg i t) = i" "connection_type (cfg i t) = t"
  by (simp_all add: cfg_def)

lemma a_serializer_simps [simp]:
  "users_for_node a_serializer = rev"
  "user_for_node a_serializer i u d None = d"
  "user_for_node a_serializer i u d (Some l) = d + length l"
  "settings_dict a_serializer ps = ps"
  by (simp_all add: a_serializer_def)

lemma a_user_simps [simp]:
  "user_id a_user = 7" "username a_user = ''alice''" "proxy_settings a_user = 5"
  by (simp_all add: a_user_def)

lemma split_pairs: "(\<lambda>(k, n). f n) = (\<lambda>p. f (snd p))"
  by (simp add: fun_eq_iff split: prod.splits)

section \<open>The registry\<close>

subsection \<open>Removing an id that has no handle\<close>

text \<open>
  C7. When the id is not a key of the dictionary, \<open>remove_node\<close> returns without an
  exception and leaves the whole state as it was: the dictionary is the same and the
  trace is the same, so no \<open>set_health\<close> and no \<open>stop\<close> was called.
\<close>

theorem remove_absent_noop:
  assumes "k \<notin> set (map fst (nodes s))"
  shows "remove_node T k s = (Inr (), s)"
proof -
  have "dict_get (nodes s) k = None"
    using assms by (simp add: dict_get_def map_of_eq_None_iff)
  then show ?thesis by (rule remove_node_absent)
qed

text \<open>
  The id 9 is not registered among the three nodes; removing it changes nothing, also
  on a remote side whose \<open>stop\<close> would raise.
\<close>

theorem remove_absent_noop_witness:
  "9 \<notin> set (map fst (nodes three_nodes)) \<and>
   remove_node (stop_fails_on 0) 9 three_nodes = (Inr (), three_nodes)"
proof -
  have h: "9 \<notin> set (map fst (nodes three_nodes))"
    by (simp add: three_nodes_simps)
  show ?thesis using h remove_absent_noop [OF h] by simp
qed

subsection \<open>A retirement that raises\<close>

text \<open>
  C4 as stated does not hold: it has \<open>update_node\<close> construct, install and return the
  new handle whenever the retirement of the old one raises. The new handle is made only
  after the lookup of the connection kind in \<open>type_map\<close>. Here the handle of node 1
  raises on \<open>stop\<close> and the configuration has the id 1 and the kind \<open>ws\<close>: the call
  raises \<open>KeyError\<close>, no object is made, and the id 1 has no handle afterwards.
\<close>

theorem retirement_without_replacement_counterexample:
  "get_node 1 three_nodes = Some (handle 0 1 NodeType_rest) \<and>
   stop_raises (stop_fails_on 0) (handle 0 1 NodeType_rest) = Some timeout \<and>
   fst (update_node (stop_fails_on 0) (cfg 1 (other_kind ''ws'')) three_nodes) = Inl KeyError \<and>
   get_node 1 (snd (update_node (stop_fails_on 0) (cfg 1 (other_kind ''ws'')) three_nodes)) = None \<and>
   next_obj (snd (update_node (stop_fails_on 0) (cfg 1 (other_kind ''ws'')) three_nodes)) =
     next_obj three_nodes"
proof -
  have h: "dict_getitem type_map (connection_type (cfg 1 (other_kind ''ws''))) = Inl KeyError"
    by (simp add: type_map_cases)
  show ?thesis
    by (simp add: update_node_unknown [OF h] get_node_def three_nodes_simps dict_get_def
          without_def stop_fails_on_def)
qed

text \<open>
  C4, amended. Let a handle be registered under \<open>k\<close> and let its \<open>set_health\<close> or its
  \<open>stop\<close> raise an exception \<open>e\<close> (an instance of \<open>Exception\<close>, as all of \<open>exn\<close> are). Then
  \<open>remove_node\<close> returns without an exception, the key is gone from the dictionary, and
  the trace ends with the deletion of the old handle. For \<open>update_node\<close> with a
  configuration of the same id: when its connection kind is a key of \<open>type_map\<close>, the
  call returns the handle \<open>create_node\<close> made, the dictionary holds it under \<open>k\<close> in place
  of the old one, and the trace shows the old handle deleted, then the new one made and
  stored; when the kind is no key of \<open>type_map\<close>, the old handle is deleted in the same
  way and the call raises the \<open>KeyError\<close> of the lookup, with no handle under \<open>k\<close>.
\<close>

theorem retirement_failure_contained:
  assumes "dict_get (nodes s) k = Some old_node"
      and "set_health_raises T old_node INVALID = Some e \<or> stop_raises T old_node = Some e"
  shows "fst (remove_node T k s) = Inr () \<and>
         nodes (snd (remove_node T k s)) = without k (nodes s) \<and>
         get_node k (snd (remove_node T k s)) = None \<and>
         trace (snd (remove_node T k s)) = trace s @ retirement T k old_node \<and>
         (node_id node = k \<longrightarrow> dict_getitem type_map (connection_type node) = Inr c \<longrightarrow>
            fst (update_node T node s) = Inr (made (next_obj s) c node) \<and>
            nodes (snd (update_node T node s)) =
              without k (nodes s) @ [(k, made (next_obj s) c node)] \<and>
            get_node k (snd (update_node T node s)) = Some (made (next_obj s) c node) \<and>
            trace (snd (update_node T node s)) =
              trace s @ retirement T k old_node @
              [CreateNode (made (next_obj s) c node), DictSet k (made (next_obj s) c node)]) \<and>
         (node_id node = k \<longrightarrow> connection_type node \<notin> set (map fst type_map) \<longrightarrow>
            fst (update_node T node s) = Inl KeyError \<and>
            nodes (snd (update_node T node s)) = without k (nodes s) \<and>
            get_node k (snd (update_node T node s)) = None \<and>
            trace (snd (update_node T node s)) = trace s @ retirement T k old_node)"
proof -
  have "fst (update_node T node s) = Inl KeyError \<and>
        nodes (snd (update_node T node s)) = without k (nodes s) \<and>
        get_node k (snd (update_node T node s)) = None \<and>
        trace (snd (update_node T node s)) = trace s @ retirement T k old_node"
    if "node_id node = k" "connection_type node \<notin> set (map fst type_map)"
    using that(1) assms(1)
    by (simp add: update_node_unknown [OF type_map_unknown [OF that(2)]] get_node_def
          retired_def)
  moreover have "fst (remove_node T k s) = Inr () \<and>
         nodes (snd (remove_node T k s)) = without k (nodes s) \<and>
         get_node k (snd (remove_node T k s)) = None \<and>
         trace (snd (remove_node T k s)) = trace s @ retirement T k old_node"
    by (simp add: remove_node_present [OF assms(1)] get_node_def)
  moreover have "fst (update_node T node s) = Inr (made (next_obj s) c node) \<and>
            nodes (snd (update_node T node s)) =
              without k (nodes s) @ [(k, made (next_obj s) c node)] \<and>
            get_node k (snd (update_node T node s)) = Some (made (next_obj s) c node) \<and>
            trace (snd (update_node T node s)) =
              trace s @ retirement T k old_node @
              [CreateNode (made (next_obj s) c node), DictSet k (made (next_obj s) c node)]"
    if "node_id node = k" "dict_getitem type_map (connection_type node) = Inr c"
    using that(1) assms(1)
    by (simp add: update_node_known [OF that(2)] get_node_def retired_def)
  ultimately show ?thesis by blast
qed

text \<open>
  The handle of node 1 raises on \<open>stop\<close>: node 1 is removed all the same, a replacement
  of node 1 with the kind \<open>grpc\<close> returns the new handle, the object 3, and a replacement
  with the kind \<open>ws\<close> raises \<open>KeyError\<close> and leaves no handle under the id 1.
\<close>

theorem retirement_failure_contained_witness:
  "dict_get (nodes three_nodes) 1 = Some (handle 0 1 NodeType_rest) \<and>
   stop_raises (stop_fails_on 0) (handle 0 1 NodeType_rest) = Some timeout \<and>
   fst (remove_node (stop_fails_on 0) 1 three_nodes) = Inr () \<and>
   get_node 1 (snd (remove_node (stop_fails_on 0) 1 three_nodes)) = None \<and>
   fst (update_node (stop_fails_on 0) (cfg 1 grpc) three_nodes) = Inr (handle 3 1 NodeType_grpc) \<and>
   get_node 1 (snd (update_node (stop_fails_on 0) (cfg 1 grpc) three_nodes)) =
     Some (handle 3 1 NodeType_grpc) \<and>
   nodes (snd (update_node (stop_fails_on 0) (cfg 1 (other_kind ''ws'')) three_nodes)) =
     [(2, handle 1 2 NodeType_grpc), (3, handle 2 3 NodeType_rest)]"
proof -
  have h1: "dict_get (nodes three_nodes) 1 = Some (handle 0 1 NodeType_rest)"
    by (simp add: three_nodes_simps dict_get_def)
  have h2: "stop_raises (stop_fails_on 0) (handle 0 1 NodeType_rest) = Some timeout"
    by (simp add: stop_fails_on_def)
  have h3: "dict_getitem type_map (connection_type (cfg 1 grpc)) = Inr NodeType_grpc"
    by (simp add: type_map_cases)
  have h4: "connection_type (cfg 1 (other_kind ''ws'')) \<notin> set (map fst type_map)"
    by (simp add: type_map_def)
  show ?thesis
    using h1 h2 h3 h4
      retirement_failure_contained [OF h1 disjI2 [OF h2], of "cfg 1 grpc" NodeType_grpc]
      retirement_failure_contained [OF h1 disjI2 [OF h2], of "cfg 1 (other_kind ''ws'')"]
    by (simp add: made_cfg three_nodes_simps without_def)
qed

subsection \<open>The order of a retirement\<close>




subsection \<open>A connection kind that type_map does not have\<close>




subsection \<open>One handle for each id\<close>




section \<open>The health scans\<close>

subsection \<open>When every query returns\<close>

text \<open>
  C8. When \<open>get_health\<close> returns for every registered handle, each scan returns, in
  the order of the dictionary, exactly the entries whose handle reported the health of
  the scan: HEALTHY for \<open>get_healthy_nodes\<close>, BROKEN for \<open>get_broken_nodes\<close>,
  NOT_CONNECTED for \<open>get_not_connected_nodes\<close>. Every handle is asked once, in that
  order.
\<close>

theorem health_scans_exact:
  assumes "\<forall>(k, n)\<in>set (nodes s). \<exists>v. get_health_returns T n = Inr v"
  shows "get_healthy_nodes T s =
           (Inr (filter (\<lambda>(k, n). get_health_returns T n = Inr HEALTHY) (nodes s)),
            emits (map (\<lambda>(k, n). GetHealth n) (nodes s)) s) \<and>
         get_broken_nodes T s =
           (Inr (filter (\<lambda>(k, n). get_health_returns T n = Inr BROKEN) (nodes s)),
            emits (map (\<lambda>(k, n). GetHealth n) (nodes s)) s) \<and>
         get_not_connected_nodes T s =
           (Inr (filter (\<lambda>(k, n). get_health_returns T n = Inr NOT_CONNECTED) (nodes s)),
            emits (map (\<lambda>(k, n). GetHealth n) (nodes s)) s)"
proof -
  have "\<forall>p\<in>set (nodes s). \<exists>v. get_health_returns T (snd p) = Inr v"
    using assms by auto
  then show ?thesis
    by (simp add: get_healthy_nodes_def get_broken_nodes_def get_not_connected_nodes_def
          health_scan_returns split_pairs)
qed

text \<open>
  Of the three nodes the first reports HEALTHY, the second BROKEN and the third
  NOT_CONNECTED: each scan returns its one node.
\<close>

theorem health_scans_exact_witness:
  "get_health_returns well_behaved (handle 0 1 NodeType_rest) = Inr HEALTHY \<and>
   get_health_returns well_behaved (handle 1 2 NodeType_grpc) = Inr BROKEN \<and>
   get_health_returns well_behaved (handle 2 3 NodeType_rest) = Inr NOT_CONNECTED \<and>
   fst (get_healthy_nodes well_behaved three_nodes) = Inr [(1, handle 0 1 NodeType_rest)] \<and>
   fst (get_broken_nodes well_behaved three_nodes) = Inr [(2, handle 1 2 NodeType_grpc)] \<and>
   fst (get_not_connected_nodes well_behaved three_nodes) = Inr [(3, handle 2 3 NodeType_rest)]"
proof -
  have h: "\<forall>(k, n)\<in>set (nodes three_nodes). \<exists>v. get_health_returns well_behaved n = Inr v"
    by (simp add: well_behaved_def)
  show ?thesis
    using health_scans_exact [OF h]
    by (simp add: three_nodes_simps well_behaved_def)
qed

subsection \<open>When a query raises\<close>

text \<open>
  C3 as stated does not hold: it has the scan go on without the handle whose
  \<open>get_health\<close> raises. Nothing in the three methods catches the exception. Here the
  second of three handles raises and the two others answer: each scan raises that
  exception, \<open>get_healthy_nodes\<close> does not return the healthy first node, and the third
  handle is never asked.
\<close>

theorem health_scan_aborts_counterexample:
  "get_health_returns (get_health_fails_on 1) (handle 0 1 NodeType_rest) = Inr HEALTHY \<and>
   get_health_returns (get_health_fails_on 1) (handle 1 2 NodeType_grpc) = Inl timeout \<and>
   get_health_returns (get_health_fails_on 1) (handle 2 3 NodeType_rest) = Inr NOT_CONNECTED \<and>
   fst (get_healthy_nodes (get_health_fails_on 1) three_nodes) = Inl timeout \<and>
   fst (get_healthy_nodes (get_health_fails_on 1) three_nodes) \<noteq>
     Inr [(1, handle 0 1 NodeType_rest)] \<and>
   fst (get_broken_nodes (get_health_fails_on 1) three_nodes) = Inl timeout \<and>
   fst (get_not_connected_nodes (get_health_fails_on 1) three_nodes) = Inl timeout \<and>
   GetHealth (handle 2 3 NodeType_rest) \<notin>
     set (trace (snd (get_not_connected_nodes (get_health_fails_on 1) three_nodes)))"
  by (simp add: get_healthy_nodes_def get_broken_nodes_def get_not_connected_nodes_def
        three_nodes_simps get_health_def get_health_fails_on_def well_behaved_def emit_emits)

text \<open>
  C3, amended. Let \<open>get_health\<close> raise for a registered handle and return for every
  handle before it in the dictionary (so for all others, when it raises for exactly
  one). Then each of the three scans raises that exception and returns no list; the
  handles up to and including the raising one have been asked, the handles after it
  have not.
\<close>

theorem health_scan_raises_with_the_handle:
  assumes "nodes s = before @ (k, n) # after"
      and "\<forall>(j, m)\<in>set before. \<exists>v. get_health_returns T m = Inr v"
      and "get_health_returns T n = Inl e"
  shows "get_healthy_nodes T s =
           (Inl e, emits (map (\<lambda>(j, m). GetHealth m) before @ [GetHealth n]) s) \<and>
         get_broken_nodes T s =
           (Inl e, emits (map (\<lambda>(j, m). GetHealth m) before @ [GetHealth n]) s) \<and>
         get_not_connected_nodes T s =
           (Inl e, emits (map (\<lambda>(j, m). GetHealth m) before @ [GetHealth n]) s)"
proof -
  have "\<forall>p\<in>set before. \<exists>v. get_health_returns T (snd p) = Inr v"
    using assms(2) by auto
  then show ?thesis
    by (simp add: get_healthy_nodes_def get_broken_nodes_def get_not_connected_nodes_def
          assms(1) health_scan_raises [OF _ assms(3)] split_pairs)
qed

text \<open>
  The second of the three handles raises: the scan asks the first and the second
  handle and raises.
\<close>

theorem health_scan_raises_with_the_handle_witness:
  "nodes three_nodes = [(1, handle 0 1 NodeType_rest)] @ (2, handle 1 2 NodeType_grpc) #
     [(3, handle 2 3 NodeType_rest)] \<and>
   get_health_returns (get_health_fails_on 1) (handle 0 1 NodeType_rest) = Inr HEALTHY \<and>
   get_health_returns (get_health_fails_on 1) (handle 1 2 NodeType_grpc) = Inl timeout \<and>
   get_healthy_nodes (get_health_fails_on 1) three_nodes =
     (Inl timeout,
      emits [GetHealth (handle 0 1 NodeType_rest), GetHealth (handle 1 2 NodeType_grpc)] three_nodes)"
proof -
  have h1: "nodes three_nodes = [(1, handle 0 1 NodeType_rest)] @ (2, handle 1 2 NodeType_grpc) #
     [(3, handle 2 3 NodeType_rest)]"
    by (simp add: three_nodes_simps)
  have h2: "\<forall>(j, m)\<in>set [(1, handle 0 1 NodeType_rest)].
              \<exists>v. get_health_returns (get_health_fails_on 1) m = Inr v"
    by (simp add: get_health_fails_on_def well_behaved_def)
  have h3: "get_health_returns (get_health_fails_on 1) (handle 1 2 NodeType_grpc) = Inl timeout"
    by (simp add: get_health_fails_on_def)
  have h4: "get_health_returns (get_health_fails_on 1) (handle 0 1 NodeType_rest) = Inr HEALTHY"
    by (simp add: get_health_fails_on_def well_behaved_def)
  show ?thesis
    using h1 h3 h4 health_scan_raises_with_the_handle [OF h1 h2 h3]
    by simp
qed

section \<open>The broadcasts\<close>

subsection \<open>When a call into a handle raises\<close>

text \<open>
  C1 as stated does not hold: it has the broadcast call every other handle and
  return when one handle raises. The loops of \<open>update_users\<close> and \<open>_update_user\<close> have
  no handler. Here the second of three handles raises: \<open>update_user\<close>, \<open>remove_user\<close>
  and \<open>update_users\<close> raise its exception, and the third handle is never called.
\<close>

theorem broadcast_aborts_counterexample:
  "update_user_raises (update_fails_on 1) (handle 1 2 NodeType_grpc) 5 = Some timeout \<and>
   update_user_raises (update_fails_on 1) (handle 0 1 NodeType_rest) 5 = None \<and>
   update_user_raises (update_fails_on 1) (handle 2 3 NodeType_rest) 5 = None \<and>
   fst (update_user (update_fails_on 1) a_serializer a_user None three_nodes) = Inl timeout \<and>
   UpdateUser (handle 2 3 NodeType_rest) 5 \<notin>
     set (trace (snd (update_user (update_fails_on 1) a_serializer a_user None three_nodes))) \<and>
   fst (remove_user (update_fails_on 1) a_serializer a_user three_nodes) = Inl timeout \<and>
   UpdateUser (handle 2 3 NodeType_rest) 5 \<notin>
     set (trace (snd (remove_user (update_fails_on 1) a_serializer a_user three_nodes))) \<and>
   fst (update_users (update_fails_on 1) a_serializer [1, 2] three_nodes) = Inl timeout \<and>
   UpdateUsers (handle 2 3 NodeType_rest) [2, 1] \<notin>
     set (trace (snd (update_users (update_fails_on 1) a_serializer [1, 2] three_nodes)))"
  by (simp add: update_user_def remove_user_def update_users_def serialize_user_for_node_def
        serialize_users_for_node_def private_update_user_def inbounds_default_def
        node_update_user_def node_update_users_def raise_or_return_def update_fails_on_def
        three_nodes_simps emit_emits sending_update_request_def)

text \<open>
  C1, amended. Let the handles of the dictionary be \<open>before\<close>, then \<open>n\<close>, then
  \<open>after\<close>, let the call into \<open>n\<close> raise \<open>e\<close> and let the calls into the handles of
  \<open>before\<close> return. Then \<open>update_user\<close> serializes the user, calls \<open>update_user\<close> on
  the handles of \<open>before\<close> and on \<open>n\<close>, in this order, and raises \<open>e\<close>; no handle
  of \<open>after\<close> is called. The same holds for \<open>remove_user\<close>, and for \<open>update_users\<close>
  with the method \<open>update_users\<close> of the handles.
\<close>

theorem broadcast_stops_at_first_failure:
  assumes "map snd (nodes s) = before @ n # after"
      and "pu = user_for_node S (user_id user) (username user)
                  (settings_dict S (proxy_settings user)) inbounds"
      and "pr = user_for_node S (user_id user) (username user)
                  (settings_dict S (proxy_settings user)) None"
      and "pus = users_for_node S users"
  shows "((\<forall>m\<in>set before. update_user_raises T m pu = None) \<and>
            update_user_raises T n pu = Some e \<longrightarrow>
          update_user T S user inbounds s =
            (Inl e,
             emits (SerializeUser (user_id user) (username user)
                      (settings_dict S (proxy_settings user)) inbounds #
                    concat (map (user_call pu) (before @ [n]))) s)) \<and>
         ((\<forall>m\<in>set before. update_user_raises T m pr = None) \<and>
            update_user_raises T n pr = Some e \<longrightarrow>
          remove_user T S user s =
            (Inl e,
             emits (SerializeUser (user_id user) (username user)
                      (settings_dict S (proxy_settings user)) None #
                    concat (map (user_call pr) (before @ [n]))) s)) \<and>
         ((\<forall>m\<in>set before. update_users_raises T m pus = None) \<and>
            update_users_raises T n pus = Some e \<longrightarrow>
          update_users T S users s =
            (Inl e,
             emits (SerializeUsers users # concat (map (users_call pus) (before @ [n]))) s))"
  using assms(1)
  by (simp add: update_user_def remove_user_def update_users_def serialize_user_for_node_def
        serialize_users_for_node_def private_update_user_def inbounds_default_def
        update_user_loop_raises update_users_loop_raises emit_emits assms(2-4))

text \<open>
  The second of the three handles raises on both methods: each broadcast calls the
  first and the second handle and raises.
\<close>

theorem broadcast_stops_at_first_failure_witness:
  "map snd (nodes three_nodes) =
     [handle 0 1 NodeType_rest] @ handle 1 2 NodeType_grpc # [handle 2 3 NodeType_rest] \<and>
   update_user_raises (update_fails_on 1) (handle 0 1 NodeType_rest) 5 = None \<and>
   update_user_raises (update_fails_on 1) (handle 1 2 NodeType_grpc) 5 = Some timeout \<and>
   update_user (update_fails_on 1) a_serializer a_user None three_nodes =
     (Inl timeout,
      emits [SerializeUser 7 ''alice'' 5 None,
             LogInfo (sending_update_request (handle 0 1 NodeType_rest)),
             UpdateUser (handle 0 1 NodeType_rest) 5,
             LogInfo (sending_update_request (handle 1 2 NodeType_grpc)),
             UpdateUser (handle 1 2 NodeType_grpc) 5] three_nodes) \<and>
   remove_user (update_fails_on 1) a_serializer a_user three_nodes =
     (Inl timeout,
      emits [SerializeUser 7 ''alice'' 5 None,
             LogInfo (sending_update_request (handle 0 1 NodeType_rest)),
             UpdateUser (handle 0 1 NodeType_rest) 5,
             LogInfo (sending_update_request (handle 1 2 NodeType_grpc)),
             UpdateUser (handle 1 2 NodeType_grpc) 5] three_nodes) \<and>
   update_users (update_fails_on 1) a_serializer [1, 2] three_nodes =
     (Inl timeout,
      emits [SerializeUsers [1, 2], UpdateUsers (handle 0 1 NodeType_rest) [2, 1],
             UpdateUsers (handle 1 2 NodeType_grpc) [2, 1]] three_nodes)"
proof -
  have h1: "map snd (nodes three_nodes) =
     [handle 0 1 NodeType_rest] @ handle 1 2 NodeType_grpc # [handle 2 3 NodeType_rest]"
    by (simp add: three_nodes_simps)
  have h2: "update_user_raises (update_fails_on 1) (handle 0 1 NodeType_rest) 5 = None"
    "update_user_raises (update_fails_on 1) (handle 1 2 NodeType_grpc) 5 = Some timeout"
    "update_users_raises (update_fails_on 1) (handle 0 1 NodeType_rest) [2, 1] = None"
    "update_users_raises (update_fails_on 1) (handle 1 2 NodeType_grpc) [2, 1] = Some timeout"
    by (simp_all add: update_fails_on_def)
  show ?thesis
    using h1 h2 broadcast_stops_at_first_failure [OF h1 refl refl refl,
        where S = a_serializer and user = a_user and inbounds = None
          and T = "update_fails_on 1" and e = timeout and users = "[1, 2]"]
    by (simp add: user_call_def users_call_def)
qed

subsection \<open>The batch is serialized once\<close>

text \<open>
  C9. \<open>update_users\<close> calls the serializer of the batch exactly once, whatever the
  dictionary holds and whatever the handles answer. When no call into a handle raises,
  it returns after calling \<open>update_users\<close> on every handle of the dictionary, in order,
  each time with the one serialized batch.
\<close>

theorem batch_serialized_once:
  "batch_serializer_calls (since s (snd (update_users T S users s))) = 1 \<and>
   ((\<forall>n\<in>set (map snd (nodes s)). update_users_raises T n (users_for_node S users) = None) \<longrightarrow>
    update_users T S users s =
      (Inr (),
       emits (SerializeUsers users #
              map (\<lambda>n. UpdateUsers n (users_for_node S users)) (map snd (nodes s))) s))"
proof -
  let ?s1 = "emits [SerializeUsers users] s"
  obtain es where es: "snd (update_users_loop T (users_for_node S users) (map snd (nodes s)) ?s1) =
      emits es ?s1" "batch_serializer_calls es = 0"
    using update_users_loop_events [of T "users_for_node S users" "map snd (nodes s)" ?s1]
    by blast
  have once: "batch_serializer_calls (since s (snd (update_users T S users s))) = 1"
    using es
    by (simp add: update_users_def serialize_users_for_node_def emit_emits
          batch_serializer_calls_def)
  have "update_users T S users s =
      (Inr (),
       emits (SerializeUsers users #
              map (\<lambda>n. UpdateUsers n (users_for_node S users)) (map snd (nodes s))) s)"
    if "\<forall>n\<in>set (map snd (nodes s)). update_users_raises T n (users_for_node S users) = None"
    using that
    by (simp add: update_users_def serialize_users_for_node_def emit_emits
          update_users_loop_returns concat_users_call)
  with once show ?thesis by blast
qed

text \<open>
  On the three nodes with a remote side that never raises: one call of the
  serializer, then one call for each handle with the same batch.
\<close>

theorem batch_serialized_once_witness:
  "batch_serializer_calls
     (since three_nodes (snd (update_users well_behaved a_serializer [1, 2] three_nodes))) = 1 \<and>
   update_users_raises well_behaved (handle 0 1 NodeType_rest) [2, 1] = None \<and>
   update_users_raises well_behaved (handle 1 2 NodeType_grpc) [2, 1] = None \<and>
   update_users_raises well_behaved (handle 2 3 NodeType_rest) [2, 1] = None \<and>
   update_users well_behaved a_serializer [1, 2] three_nodes =
     (Inr (),
      emits [SerializeUsers [1, 2], UpdateUsers (handle 0 1 NodeType_rest) [2, 1],
             UpdateUsers (handle 1 2 NodeType_grpc) [2, 1],
             UpdateUsers (handle 2 3 NodeType_rest) [2, 1]] three_nodes)"
proof -
  have h: "\<forall>n\<in>set (map snd (nodes three_nodes)).
      update_users_raises well_behaved n (users_for_node a_serializer [1, 2]) = None"
    by (simp add: well_behaved_def)
  show ?thesis
    using h batch_serialized_once [of three_nodes well_behaved a_serializer "[1, 2]"]
    by (simp add: three_nodes_simps batch_serializer_calls_def well_behaved_def)
qed

subsection \<open>Removing a user is updating it with no inbounds\<close>



end
